theory Spec2Isabelle
  imports Complex_Main
begin

section \<open>Data model\<close>

text \<open>
  The embedding follows \<^verbatim>\<open>backend/app/services/arbitrage_service.py\<close> and the
  SQLAlchemy models it reads. Python's \<^verbatim>\<open>Decimal\<close> and \<^verbatim>\<open>float\<close> values are
  both embedded as exact rationals: the 28-digit context rounding of \<^verbatim>\<open>Decimal\<close>
  and the binary rounding of \<^verbatim>\<open>float\<close> are not represented. Timestamps are
  integers (microseconds), identifiers are strings. Logging calls have no effect on
  any returned value and are left out.
\<close>

type_synonym uuid = string
type_synonym datetime = int
type_synonym decimal = rat

datatype error = StoreError | TypeError | KeyError | DivisionByZero


record price_history =
  ph_product_id :: uuid
  ph_price :: decimal
  ph_source :: string
  ph_seller_count :: "int option"
  ph_recorded_at :: datetime

record product_single =
  ps_sealed_product_id :: uuid
  ps_single_product_id :: uuid
  ps_quantity :: int

text \<open>
  An \<^verbatim>\<open>ArbitrageOpportunity\<close> object. The columns that the constructor call of
  the analyzer does not set (\<^verbatim>\<open>id\<close>, \<^verbatim>\<open>competition_level\<close>,
  \<^verbatim>\<open>execution_quantity\<close>, the timestamps) are \<^verbatim>\<open>None\<close> until the row is
  inserted, hence optional here.
\<close>

record arbitrage_opportunity =
  opp_id :: "uuid option"
  sealed_product_id :: uuid
  sealed_price :: decimal
  singles_value :: decimal
  margin_percentage :: decimal
  confidence_score :: decimal
  risk_level :: string
  seller_count :: "int option"
  competition_level :: "string option"
  status :: string
  execution_quantity :: "int option"
  execution_notes :: "string option"
  created_at :: "datetime option"
  updated_at :: "datetime option"
  expires_at :: "datetime option"
  executed_at :: "datetime option"

text \<open>
  A database session: the two tables the analyzer reads, whether the store can be
  reached (a query on an unreachable store raises), and the engine's choice among
  rows with equal sort keys. The query of \<^verbatim>\<open>_get_latest_price_with_db\<close> orders by
  \<^verbatim>\<open>recorded_at\<close> alone, and SQL leaves the relative order of rows with equal keys
  to the engine; \<open>first_of_ties\<close> is that choice, made outside the program.
\<close>

record session =
  price_history_rows :: "price_history list"
  product_single_rows :: "product_single list"
  reachable :: bool
  first_of_ties :: nat


record analyzer =
  db :: "session option"
  min_margin_threshold :: decimal
  max_seller_threshold :: int
  confidence_weights :: "(string \<times> decimal) list"



section \<open>Exceptions\<close>

text \<open>\<^verbatim>\<open>try: body except Exception as e: handler\<close>.\<close>

definition try_except :: "error + 'a \<Rightarrow> (error \<Rightarrow> error + 'a) \<Rightarrow> error + 'a" where
  "try_except body handler = (case body of Inl e \<Rightarrow> handler e | Inr v \<Rightarrow> Inr v)"

section \<open>Signals, confidence and risk\<close>










definition assess_risk_level :: "decimal \<Rightarrow> decimal \<Rightarrow> string" where
  "assess_risk_level margin confidence =
     (if confidence \<ge> 8 / 10 \<and> margin \<ge> 50 then ''low''
      else if confidence \<ge> 6 / 10 \<and> margin \<ge> 30 then ''medium''
      else ''high'')"

section \<open>Price resolution and singles valuation\<close>

text \<open>
  \<^verbatim>\<open>query.order_by(PriceHistory.recorded_at.desc()).first()\<close>: the first row of
  the result, or \<^verbatim>\<open>None\<close> on an empty result. The rows that may come first are those
  no other row exceeds in \<^verbatim>\<open>recorded_at\<close>; which of them does is the engine's choice.
\<close>

definition order_by_recorded_at_desc_first ::
  "nat \<Rightarrow> price_history list \<Rightarrow> price_history option" where
  "order_by_recorded_at_desc_first choice rows =
     (let top = filter (\<lambda>x. list_all (\<lambda>y. ph_recorded_at y \<le> ph_recorded_at x) rows) rows
      in if top = [] then None else Some (top ! (choice mod length top)))"

definition get_latest_price_with_db :: "session \<Rightarrow> uuid \<Rightarrow> error + decimal option" where
  "get_latest_price_with_db s product_id =
     (if \<not> reachable s then Inl StoreError
      else
        (case order_by_recorded_at_desc_first (first_of_ties s)
                (filter (\<lambda>h. ph_product_id h = product_id) (price_history_rows s)) of
           None \<Rightarrow> Inr None
         | Some latest_price \<Rightarrow> Inr (Some (ph_price latest_price))))"

text \<open>
  \<^verbatim>\<open>_get_latest_price\<close>. Without a session of its own the analyzer enters
  \<^verbatim>\<open>async with get_db_session()\<close>; \<^verbatim>\<open>get_db_session\<close> is a synchronous context
  manager, so entering it raises, inside the \<^verbatim>\<open>try\<close>.
\<close>

definition get_latest_price :: "analyzer \<Rightarrow> uuid \<Rightarrow> string \<Rightarrow> error + decimal option" where
  "get_latest_price a product_id product_type =
     try_except
       (case db a of
          Some s \<Rightarrow> get_latest_price_with_db s product_id
        | None \<Rightarrow> Inl TypeError)
       (\<lambda>e. Inr None)"

text \<open>The scalar subquery \<^verbatim>\<open>max(recorded_at)\<close> over one product's observations
  (\<^verbatim>\<open>NULL\<close> when there are none).\<close>

definition max_recorded_at :: "price_history list \<Rightarrow> uuid \<Rightarrow> datetime option" where
  "max_recorded_at rows product_id =
     (case map ph_recorded_at (filter (\<lambda>h. ph_product_id h = product_id) rows) of
        [] \<Rightarrow> None
      | t # ts \<Rightarrow> Some (fold max ts t))"

text \<open>The join of \<^verbatim>\<open>_calculate_singles_value_with_db\<close>: one result row for every
  composition edge of the sealed product and every observation of the edge's single
  whose \<^verbatim>\<open>recorded_at\<close> equals that single's maximum.\<close>

definition singles_query :: "session \<Rightarrow> uuid \<Rightarrow> error + (int \<times> decimal) list" where
  "singles_query s sealed_id =
     (if \<not> reachable s then Inl StoreError
      else Inr
        [(ps_quantity e, ph_price h).
           e \<leftarrow> product_single_rows s, h \<leftarrow> price_history_rows s,
           ps_single_product_id e = ph_product_id h,
           ps_sealed_product_id e = sealed_id,
           Some (ph_recorded_at h)
             = max_recorded_at (price_history_rows s) (ps_single_product_id e)])"

definition calculate_singles_value_with_db :: "session \<Rightarrow> uuid \<Rightarrow> error + decimal option" where
  "calculate_singles_value_with_db s sealed_id =
     (case singles_query s sealed_id of
        Inl e \<Rightarrow> Inl e
      | Inr singles_data \<Rightarrow>
          if singles_data = [] then Inr None
          else Inr (Some (fold (\<lambda>(quantity, price) total_value.
                                  total_value + of_int quantity * price)
                               singles_data 0)))"

definition calculate_singles_value :: "analyzer \<Rightarrow> uuid \<Rightarrow> error + decimal option" where
  "calculate_singles_value a sealed_id =
     try_except
       (case db a of
          Some s \<Rightarrow> calculate_singles_value_with_db s sealed_id
        | None \<Rightarrow> Inl TypeError)
       (\<lambda>e. Inr None)"

text \<open>The valuation as the specification words it (section 4.2): every composition
  edge of the sealed product whose single has a resolvable latest price contributes
  once, with its quantity times that price; no value when no single resolves.\<close>

definition spec_resolved_singles :: "session \<Rightarrow> uuid \<Rightarrow> (int \<times> decimal) list" where
  "spec_resolved_singles s sealed_id =
     concat (map (\<lambda>e.
               case get_latest_price_with_db s (ps_single_product_id e) of
                 Inr (Some price) \<Rightarrow> [(ps_quantity e, price)]
               | _ \<Rightarrow> [])
             (filter (\<lambda>e. ps_sealed_product_id e = sealed_id) (product_single_rows s)))"

definition spec_singles_value :: "session \<Rightarrow> uuid \<Rightarrow> decimal option" where
  "spec_singles_value s sealed_id =
     (let resolved = spec_resolved_singles s sealed_id
      in if resolved = [] then None
         else Some (sum_list (map (\<lambda>(quantity, price). of_int quantity * price) resolved)))"

section \<open>The analyzer\<close>


definition hours :: "int \<Rightarrow> datetime" where
  "hours n = n * 3600000000"





section \<open>Opportunity lifecycle\<close>

datatype failure = NotFound | InvalidArgument | InvalidState | Unexpected

text \<open>The request schema \<^verbatim>\<open>OpportunityExecution\<close> of
  \<^verbatim>\<open>backend/app/schemas/opportunity.py\<close>: \<^verbatim>\<open>quantity\<close> with \<^verbatim>\<open>ge=1, le=100\<close>,
  optional \<^verbatim>\<open>notes\<close> with \<^verbatim>\<open>max_length=500\<close>.\<close>

definition OpportunityExecution_valid :: "int \<Rightarrow> string option \<Rightarrow> bool" where
  "OpportunityExecution_valid quantity notes =
     (1 \<le> quantity \<and> quantity \<le> 100
      \<and> (case notes of None \<Rightarrow> True | Some n \<Rightarrow> length n \<le> 500))"

text \<open>
  Modelled from the spec: \<^verbatim>\<open>OpportunityService.execute_opportunity\<close>
  (\<^verbatim>\<open>app/services/opportunity_service.py\<close>) is called by the endpoints but is not
  among the sources. Section 4.6: execute(quantity, notes) goes from active to
  executed only; it fails InvalidState if the current status is not active; it fails
  InvalidArgument if quantity is outside [1,100]; it sets execution_quantity,
  execution_notes and executed_at; all mutations refresh updated_at. The two guards
  are taken in the order the spec lists them.
\<close>

definition execute ::
  "arbitrage_opportunity \<Rightarrow> datetime \<Rightarrow> int \<Rightarrow> string option
     \<Rightarrow> failure + arbitrage_opportunity" where
  "execute opp now quantity notes =
     (if status opp \<noteq> ''active'' then Inl InvalidState
      else if quantity < 1 \<or> 100 < quantity then Inl InvalidArgument
      else Inr (opp\<lparr>status := ''executed'',
                    execution_quantity := Some quantity,
                    execution_notes := notes,
                    executed_at := Some now,
                    updated_at := Some now\<rparr>))"

text \<open>
  Modelled from the spec: \<^verbatim>\<open>OpportunityService.delete_opportunity\<close> is not among
  the sources either. Section 4.6: cancel() takes any state to cancelled, is
  idempotent and never physically removes the record; all mutations refresh
  updated_at. A record that is cancelled already is left as it is, so that a repeated
  cancel changes nothing.
\<close>

definition cancel :: "arbitrage_opportunity \<Rightarrow> datetime \<Rightarrow> arbitrage_opportunity" where
  "cancel opp now =
     (if status opp = ''cancelled'' then opp
      else opp\<lparr>status := ''cancelled'', updated_at := Some now\<rparr>)"

type_synonym opportunity_store = "uuid \<rightharpoonup> arbitrage_opportunity"

text \<open>
  Modelled from the spec: the service call behind the delete endpoint, on a store of
  opportunity records keyed by identifier. Its result is what the endpoint tests
  (\<^verbatim>\<open>if not success\<close>: unknown identifier), with the store after the call.
\<close>

definition delete_opportunity ::
  "opportunity_store \<Rightarrow> datetime \<Rightarrow> uuid \<Rightarrow> bool \<times> opportunity_store" where
  "delete_opportunity store now opportunity_id =
     (case store opportunity_id of
        None \<Rightarrow> (False, store)
      | Some opp \<Rightarrow> (True, store(opportunity_id \<mapsto> cancel opp now)))"

text \<open>The endpoint \<^verbatim>\<open>delete_opportunity\<close> of \<^verbatim>\<open>backend/app/api/v1/opportunities.py\<close>:
  a false result of the service is answered 404, success is answered 204.\<close>

definition delete_opportunity_endpoint ::
  "opportunity_store \<Rightarrow> datetime \<Rightarrow> uuid \<Rightarrow> (failure + unit) \<times> opportunity_store" where
  "delete_opportunity_endpoint store now opportunity_id =
     (let (success, store') = delete_opportunity store now opportunity_id
      in if \<not> success then (Inl NotFound, store') else (Inr (), store'))"

section \<open>A small market\<close>



definition market :: session where
  "market =
     \<lparr>price_history_rows =
        [\<lparr>ph_product_id = ''box'', ph_price = 90, ph_source = ''ebay'',
          ph_seller_count = Some 12, ph_recorded_at = 1\<rparr>,
         \<lparr>ph_product_id = ''box'', ph_price = 100, ph_source = ''tcgplayer'',
          ph_seller_count = Some 3, ph_recorded_at = 2\<rparr>,
         \<lparr>ph_product_id = ''deck'', ph_price = 100, ph_source = ''tcgplayer'',
          ph_seller_count = None, ph_recorded_at = 2\<rparr>,
         \<lparr>ph_product_id = ''card_a'', ph_price = 40, ph_source = ''tcgplayer'',
          ph_seller_count = None, ph_recorded_at = 1\<rparr>,
         \<lparr>ph_product_id = ''card_a'', ph_price = 50, ph_source = ''tcgplayer'',
          ph_seller_count = None, ph_recorded_at = 3\<rparr>,
         \<lparr>ph_product_id = ''card_b'', ph_price = 25, ph_source = ''ebay'',
          ph_seller_count = None, ph_recorded_at = 2\<rparr>],
      product_single_rows =
        [\<lparr>ps_sealed_product_id = ''box'', ps_single_product_id = ''card_a'', ps_quantity = 2\<rparr>,
         \<lparr>ps_sealed_product_id = ''box'', ps_single_product_id = ''card_b'', ps_quantity = 2\<rparr>,
         \<lparr>ps_sealed_product_id = ''box'', ps_single_product_id = ''card_c'', ps_quantity = 1\<rparr>,
         \<lparr>ps_sealed_product_id = ''deck'', ps_single_product_id = ''card_a'', ps_quantity = 4\<rparr>],
      reachable = True,
      first_of_ties = 0\<rparr>"

text \<open>A market in which two sources reported a price for the same card at the same
  instant.\<close>

definition tied_market :: session where
  "tied_market =
     \<lparr>price_history_rows =
        [\<lparr>ph_product_id = ''box'', ph_price = 15, ph_source = ''tcgplayer'',
          ph_seller_count = Some 3, ph_recorded_at = 2\<rparr>,
         \<lparr>ph_product_id = ''card_a'', ph_price = 10, ph_source = ''tcgplayer'',
          ph_seller_count = None, ph_recorded_at = 3\<rparr>,
         \<lparr>ph_product_id = ''card_a'', ph_price = 12, ph_source = ''ebay'',
          ph_seller_count = None, ph_recorded_at = 3\<rparr>],
      product_single_rows =
        [\<lparr>ps_sealed_product_id = ''box'', ps_single_product_id = ''card_a'', ps_quantity = 1\<rparr>],
      reachable = True,
      first_of_ties = 0\<rparr>"

definition found_opportunity :: arbitrage_opportunity where
  "found_opportunity =
     \<lparr>opp_id = Some ''opp-1'',
      sealed_product_id = ''box'',
      sealed_price = 100,
      singles_value = 150,
      margin_percentage = 55 / 2,
      confidence_score = 71 / 100,
      risk_level = ''high'',
      seller_count = Some 8,
      competition_level = Some ''unknown'',
      status = ''active'',
      execution_quantity = Some 0,
      execution_notes = None,
      created_at = Some 0,
      updated_at = Some 0,
      expires_at = Some (hours 24),
      executed_at = None\<rparr>"

definition opportunity_table :: opportunity_store where
  "opportunity_table = [''opp-1'' \<mapsto> found_opportunity]"


section \<open>Properties\<close>

subsection \<open>Risk classification\<close>

text \<open>
  Claim C5. The risk classifier is a function of the margin and the confidence alone,
  defined on every pair: it answers low exactly when the confidence is at least 0.8
  and the margin at least 50; medium exactly when that fails and the confidence is at
  least 0.6 and the margin at least 30; high exactly when both tests fail. The
  boundary pair margin 50, confidence 0.8 is low.
\<close>

theorem assess_risk_level_cases:
  "(assess_risk_level m c = ''low'') = (c \<ge> 8 / 10 \<and> m \<ge> 50)
   \<and> (assess_risk_level m c = ''medium'') =
       (\<not> (c \<ge> 8 / 10 \<and> m \<ge> 50) \<and> c \<ge> 6 / 10 \<and> m \<ge> 30)
   \<and> (assess_risk_level m c = ''high'') =
       (\<not> (c \<ge> 8 / 10 \<and> m \<ge> 50) \<and> \<not> (c \<ge> 6 / 10 \<and> m \<ge> 30))
   \<and> assess_risk_level m c \<in> {''low'', ''medium'', ''high''}
   \<and> assess_risk_level 50 (8 / 10) = ''low''"
  by (simp add: assess_risk_level_def)

subsection \<open>Rounding\<close>








subsection \<open>Confidence\<close>









subsection \<open>The analysis\<close>

lemma get_latest_price_returns: "\<exists>r. get_latest_price a pid t = Inr r"
  by (simp add: get_latest_price_def try_except_def split: sum.splits option.splits)

lemma calculate_singles_value_returns: "\<exists>r. calculate_singles_value a sid = Inr r"
  by (simp add: calculate_singles_value_def try_except_def split: sum.splits option.splits)









subsection \<open>The analysis on the small market\<close>




subsection \<open>Confidence and risk of produced opportunities\<close>





subsection \<open>Exceptions inside the analysis\<close>







subsection \<open>The latest price\<close>

lemma latest_rows_nonempty:
  fixes rows :: "price_history list"
  assumes "rows \<noteq> []"
  shows "filter (\<lambda>x. list_all (\<lambda>y. ph_recorded_at y \<le> ph_recorded_at x) rows) rows \<noteq> []"
proof -
  have fin: "finite (ph_recorded_at ` set rows)" by simp
  have ne: "ph_recorded_at ` set rows \<noteq> {}" using assms by simp
  from Max_in [OF fin ne] obtain x where
    x: "x \<in> set rows" "ph_recorded_at x = Max (ph_recorded_at ` set rows)"
    by auto
  have "list_all (\<lambda>y. ph_recorded_at y \<le> ph_recorded_at x) rows"
    unfolding list_all_iff x(2) using fin by (simp add: Max_ge)
  with x(1) have "x \<in> set (filter (\<lambda>x. list_all (\<lambda>y. ph_recorded_at y \<le> ph_recorded_at x) rows) rows)"
    by simp
  then show ?thesis by (metis empty_iff empty_set)
qed

lemma order_by_first_empty: "order_by_recorded_at_desc_first k [] = None"
  by (simp add: order_by_recorded_at_desc_first_def)

lemma order_by_first_maximal:
  assumes "rows \<noteq> []"
  shows "\<exists>h \<in> set rows. order_by_recorded_at_desc_first k rows = Some h
           \<and> (\<forall>y \<in> set rows. ph_recorded_at y \<le> ph_recorded_at h)"
proof -
  define top where
    "top = filter (\<lambda>x. list_all (\<lambda>y. ph_recorded_at y \<le> ph_recorded_at x) rows) rows"
  have ne: "top \<noteq> []" unfolding top_def using assms by (rule latest_rows_nonempty)
  then have "k mod length top < length top" by simp
  then have "top ! (k mod length top) \<in> set top" by (rule nth_mem)
  then have m: "top ! (k mod length top) \<in> set rows"
    "\<forall>y \<in> set rows. ph_recorded_at y \<le> ph_recorded_at (top ! (k mod length top))"
    unfolding top_def by (simp_all add: list_all_iff)
  have "order_by_recorded_at_desc_first k rows = Some (top ! (k mod length top))"
    using ne by (simp add: order_by_recorded_at_desc_first_def top_def [symmetric])
  with m show ?thesis by blast
qed

lemma order_by_first_distinct:
  assumes "\<forall>x \<in> set rows. \<forall>y \<in> set rows. ph_recorded_at x = ph_recorded_at y \<longrightarrow> x = y"
  shows "order_by_recorded_at_desc_first k rows = order_by_recorded_at_desc_first k' rows"
proof (cases "rows = []")
  case True
  then show ?thesis by (simp add: order_by_first_empty)
next
  case False
  from order_by_first_maximal [OF False, of k] obtain h where
    h: "h \<in> set rows" "order_by_recorded_at_desc_first k rows = Some h"
       "\<forall>y \<in> set rows. ph_recorded_at y \<le> ph_recorded_at h" by blast
  from order_by_first_maximal [OF False, of k'] obtain h' where
    h': "h' \<in> set rows" "order_by_recorded_at_desc_first k' rows = Some h'"
       "\<forall>y \<in> set rows. ph_recorded_at y \<le> ph_recorded_at h'" by blast
  have "ph_recorded_at h = ph_recorded_at h'"
    using h(1,3) h'(1,3) by (simp add: order_antisym)
  then have "h = h'" using assms h(1) h'(1) by blast
  then show ?thesis using h(2) h'(2) by simp
qed

text \<open>
  Claim C6, as amended. On a reachable store the resolved latest price of a product
  is none when the product has no observation, and otherwise the price of one of its
  observations whose recorded_at no observation of the product exceeds. When no two
  different observations of the product share a recorded_at, the result is the same
  whatever the engine's choice among equal sort keys. The query names no secondary
  sort key.
\<close>

theorem latest_price_has_maximum_recorded_at:
  assumes "reachable s"
  shows
    "let rows = filter (\<lambda>h. ph_product_id h = pid) (price_history_rows s)
     in (rows = [] \<longrightarrow> get_latest_price_with_db s pid = Inr None)
        \<and> (rows \<noteq> [] \<longrightarrow>
              (\<exists>h \<in> set rows.
                  get_latest_price_with_db s pid = Inr (Some (ph_price h))
                  \<and> (\<forall>y \<in> set rows. ph_recorded_at y \<le> ph_recorded_at h)))
        \<and> ((\<forall>x \<in> set rows. \<forall>y \<in> set rows. ph_recorded_at x = ph_recorded_at y \<longrightarrow> x = y)
             \<longrightarrow> (\<forall>k. get_latest_price_with_db (s\<lparr>first_of_ties := k\<rparr>) pid
                       = get_latest_price_with_db s pid))"
proof -
  define rows where "rows = filter (\<lambda>h. ph_product_id h = pid) (price_history_rows s)"
  have g: "get_latest_price_with_db (s\<lparr>first_of_ties := k\<rparr>) pid =
             (case order_by_recorded_at_desc_first k rows of
                None \<Rightarrow> Inr None
              | Some latest_price \<Rightarrow> Inr (Some (ph_price latest_price)))" for k
    using assms by (simp add: get_latest_price_with_db_def rows_def)
  have g0: "get_latest_price_with_db s pid =
             (case order_by_recorded_at_desc_first (first_of_ties s) rows of
                None \<Rightarrow> Inr None
              | Some latest_price \<Rightarrow> Inr (Some (ph_price latest_price)))"
    using assms by (simp add: get_latest_price_with_db_def rows_def)
  have 1: "rows = [] \<longrightarrow> get_latest_price_with_db s pid = Inr None"
    by (simp add: g0 order_by_first_empty)
  have 2: "rows \<noteq> [] \<longrightarrow>
              (\<exists>h \<in> set rows.
                  get_latest_price_with_db s pid = Inr (Some (ph_price h))
                  \<and> (\<forall>y \<in> set rows. ph_recorded_at y \<le> ph_recorded_at h))"
  proof
    assume "rows \<noteq> []"
    from order_by_first_maximal [OF this, of "first_of_ties s"] obtain h where
      "h \<in> set rows" "order_by_recorded_at_desc_first (first_of_ties s) rows = Some h"
      "\<forall>y \<in> set rows. ph_recorded_at y \<le> ph_recorded_at h" by blast
    then show "\<exists>h \<in> set rows.
                  get_latest_price_with_db s pid = Inr (Some (ph_price h))
                  \<and> (\<forall>y \<in> set rows. ph_recorded_at y \<le> ph_recorded_at h)"
      by (auto simp add: g0)
  qed
  have 3: "(\<forall>x \<in> set rows. \<forall>y \<in> set rows. ph_recorded_at x = ph_recorded_at y \<longrightarrow> x = y)
             \<longrightarrow> (\<forall>k. get_latest_price_with_db (s\<lparr>first_of_ties := k\<rparr>) pid
                       = get_latest_price_with_db s pid)"
  proof (intro impI allI)
    fix k
    assume "\<forall>x \<in> set rows. \<forall>y \<in> set rows. ph_recorded_at x = ph_recorded_at y \<longrightarrow> x = y"
    then have "order_by_recorded_at_desc_first k rows
                 = order_by_recorded_at_desc_first (first_of_ties s) rows"
      by (rule order_by_first_distinct)
    then show "get_latest_price_with_db (s\<lparr>first_of_ties := k\<rparr>) pid
                       = get_latest_price_with_db s pid"
      by (simp add: g g0)
  qed
  show ?thesis unfolding Let_def rows_def [symmetric] using 1 2 3 by blast
qed

theorem latest_price_has_maximum_recorded_at_witness:
  "get_latest_price_with_db market ''box'' = Inr (Some 100)
   \<and> get_latest_price_with_db (market\<lparr>first_of_ties := 7\<rparr>) ''box'' = Inr (Some 100)
   \<and> get_latest_price_with_db market ''card_c'' = Inr None"
proof -
  have r: "reachable market" by (simp add: market_def)
  have box: "filter (\<lambda>h. ph_product_id h = ''box'') (price_history_rows market) =
               [\<lparr>ph_product_id = ''box'', ph_price = 90, ph_source = ''ebay'',
                 ph_seller_count = Some 12, ph_recorded_at = 1\<rparr>,
                \<lparr>ph_product_id = ''box'', ph_price = 100, ph_source = ''tcgplayer'',
                 ph_seller_count = Some 3, ph_recorded_at = 2\<rparr>]"
    by (simp add: market_def)
  have card: "filter (\<lambda>h. ph_product_id h = ''card_c'') (price_history_rows market) = []"
    by (simp add: market_def)
  note b = latest_price_has_maximum_recorded_at [OF r, of "''box''", unfolded Let_def box]
  note c = latest_price_has_maximum_recorded_at [OF r, of "''card_c''", unfolded Let_def card]
  have 1: "get_latest_price_with_db market ''box'' = Inr (Some 100)"
    using b by auto
  have 2: "get_latest_price_with_db (market\<lparr>first_of_ties := 7\<rparr>) ''box''
             = get_latest_price_with_db market ''box''"
    using b by simp
  have 3: "get_latest_price_with_db market ''card_c'' = Inr None"
    using c by simp
  show ?thesis using 1 2 3 by simp
qed

text \<open>Two observations of one card at the same instant: the same data resolve to
  either price, by the engine's choice alone.\<close>

theorem latest_price_tie_counterexample:
  "get_latest_price_with_db tied_market ''card_a'' = Inr (Some 10)
   \<and> get_latest_price_with_db (tied_market\<lparr>first_of_ties := 1\<rparr>) ''card_a'' = Inr (Some 12)"
  by (simp add: get_latest_price_with_db_def tied_market_def order_by_recorded_at_desc_first_def)

subsection \<open>Singles valuation without timestamp ties\<close>

lemma fold_total_value:
  "fold (\<lambda>(quantity, price) total_value. total_value + of_int quantity * price) xs (a::rat)
     = a + sum_list (map (\<lambda>(quantity, price). of_int quantity * price) xs)"
  by (induction xs arbitrary: a) (auto simp add: algebra_simps)

lemma filter_distinct_key:
  "distinct (map f xs) \<Longrightarrow> x \<in> set xs \<Longrightarrow> filter (\<lambda>y. f y = f x) xs = [x]"
proof (induction xs)
  case Nil
  then show ?case by simp
next
  case (Cons a xs)
  show ?case
  proof (cases "a = x")
    case True
    have "f x \<notin> f ` set xs" using Cons.prems(1) True by simp
    then have "\<forall>y \<in> set xs. f y \<noteq> f x" by (metis imageI)
    then have "filter (\<lambda>y. f y = f x) xs = []" by (simp add: filter_empty_conv)
    then show ?thesis using True by simp
  next
    case False
    then have x: "x \<in> set xs" using Cons.prems(2) by simp
    have "f a \<notin> f ` set xs" using Cons.prems(1) by simp
    then have "f a \<noteq> f x" using x by (metis imageI)
    then show ?thesis using Cons.IH Cons.prems(1) x by simp
  qed
qed

lemma max_recorded_at_None:
  "filter (\<lambda>h. ph_product_id h = pid) rows = [] \<Longrightarrow> max_recorded_at rows pid = None"
  by (simp add: max_recorded_at_def)

lemma max_recorded_at_Some:
  assumes "filter (\<lambda>h. ph_product_id h = pid) rows \<noteq> []"
  shows "max_recorded_at rows pid
           = Some (Max (ph_recorded_at ` set (filter (\<lambda>h. ph_product_id h = pid) rows)))"
proof -
  obtain t ts where m: "map ph_recorded_at (filter (\<lambda>h. ph_product_id h = pid) rows) = t # ts"
    using assms by (cases "map ph_recorded_at (filter (\<lambda>h. ph_product_id h = pid) rows)") auto
  have "Max (set (t # ts)) = fold max ts t" by (rule Max.set_eq_fold)
  moreover have "set (t # ts) = ph_recorded_at ` set (filter (\<lambda>h. ph_product_id h = pid) rows)"
    using m by (metis set_map)
  ultimately show ?thesis by (simp add: max_recorded_at_def m)
qed


lemma order_by_first_distinct_key:
  assumes "distinct (map ph_recorded_at rows)" and "rows \<noteq> []"
  shows "\<exists>h \<in> set rows. order_by_recorded_at_desc_first k rows = Some h
           \<and> ph_recorded_at h = Max (ph_recorded_at ` set rows)
           \<and> filter (\<lambda>y. ph_recorded_at y = Max (ph_recorded_at ` set rows)) rows = [h]"
proof -
  from order_by_first_maximal [OF assms(2), of k] obtain h where
    h: "h \<in> set rows" "order_by_recorded_at_desc_first k rows = Some h"
       "\<forall>y \<in> set rows. ph_recorded_at y \<le> ph_recorded_at h" by blast
  have "Max (ph_recorded_at ` set rows) = ph_recorded_at h"
    using h(1,3) by (intro Max_eqI) auto
  then have m: "ph_recorded_at h = Max (ph_recorded_at ` set rows)" by simp
  have "filter (\<lambda>y. ph_recorded_at y = ph_recorded_at h) rows = [h]"
    using assms(1) h(1) by (rule filter_distinct_key)
  then show ?thesis using h(1,2) m by auto
qed

lemma concat_map_if_filter:
  "concat (map (\<lambda>h. if P h then if Q h then [g h] else [] else []) xs)
     = map g (filter Q (filter P xs))"
  by (induction xs) auto

lemma get_latest_price_with_db_rows:
  "reachable s \<Longrightarrow>
   get_latest_price_with_db s pid =
     (case order_by_recorded_at_desc_first (first_of_ties s)
             (filter (\<lambda>h. ph_product_id h = pid) (price_history_rows s)) of
        None \<Rightarrow> Inr None
      | Some latest_price \<Rightarrow> Inr (Some (ph_price latest_price)))"
  by (simp add: get_latest_price_with_db_def)

lemma join_rows_of_edge:
  assumes "reachable s"
    and "distinct (map ph_recorded_at
           (filter (\<lambda>h. ph_product_id h = ps_single_product_id e) (price_history_rows s)))"
  shows "concat (map (\<lambda>h.
             if ps_single_product_id e = ph_product_id h then
               if Some (ph_recorded_at h)
                    = max_recorded_at (price_history_rows s) (ps_single_product_id e)
               then [(ps_quantity e, ph_price h)] else []
             else []) (price_history_rows s))
         = (case get_latest_price_with_db s (ps_single_product_id e) of
              Inr (Some price) \<Rightarrow> [(ps_quantity e, price)]
            | _ \<Rightarrow> [])"
proof -
  define pid where "pid = ps_single_product_id e"
  define rows where "rows = filter (\<lambda>h. ph_product_id h = pid) (price_history_rows s)"
  have f: "filter (\<lambda>h. pid = ph_product_id h) (price_history_rows s) = rows"
    unfolding rows_def by (rule filter_cong) auto
  have c: "concat (map (\<lambda>h.
             if pid = ph_product_id h then
               if Some (ph_recorded_at h) = max_recorded_at (price_history_rows s) pid
               then [(ps_quantity e, ph_price h)] else []
             else []) (price_history_rows s))
           = map (\<lambda>h. (ps_quantity e, ph_price h))
               (filter (\<lambda>h. Some (ph_recorded_at h) = max_recorded_at (price_history_rows s) pid) rows)"
    unfolding concat_map_if_filter f by (rule refl)
  have g: "get_latest_price_with_db s pid =
     (case order_by_recorded_at_desc_first (first_of_ties s) rows of
        None \<Rightarrow> Inr None
      | Some latest_price \<Rightarrow> Inr (Some (ph_price latest_price)))"
    unfolding rows_def using assms(1) by (rule get_latest_price_with_db_rows)
  have "concat (map (\<lambda>h.
             if pid = ph_product_id h then
               if Some (ph_recorded_at h) = max_recorded_at (price_history_rows s) pid
               then [(ps_quantity e, ph_price h)] else []
             else []) (price_history_rows s))
         = (case get_latest_price_with_db s pid of
              Inr (Some price) \<Rightarrow> [(ps_quantity e, price)]
            | _ \<Rightarrow> [])"
  proof (cases "rows = []")
    case True
    show ?thesis
      unfolding c g unfolding True by (simp add: order_by_first_empty)
  next
    case False
    have d: "distinct (map ph_recorded_at rows)"
      using assms(2) unfolding rows_def pid_def .
    from order_by_first_distinct_key [OF d False, of "first_of_ties s"] obtain h where
      h: "order_by_recorded_at_desc_first (first_of_ties s) rows = Some h"
         "filter (\<lambda>y. ph_recorded_at y = Max (ph_recorded_at ` set rows)) rows = [h]"
      by blast
    have m: "max_recorded_at (price_history_rows s) pid = Some (Max (ph_recorded_at ` set rows))"
      using False unfolding rows_def by (rule max_recorded_at_Some)
    show ?thesis
      unfolding c g h(1) unfolding m by (simp add: h(2))
  qed
  then show ?thesis unfolding pid_def .
qed


lemma singles_query_edges:
  "reachable s \<Longrightarrow>
   singles_query s sid =
     Inr (concat (map (\<lambda>e.
            concat (map (\<lambda>h.
              if ps_single_product_id e = ph_product_id h then
                if ps_sealed_product_id e = sid then
                  if Some (ph_recorded_at h)
                       = max_recorded_at (price_history_rows s) (ps_single_product_id e)
                  then [(ps_quantity e, ph_price h)] else []
                else []
              else []) (price_history_rows s)))
          (product_single_rows s)))"
  unfolding singles_query_def by simp

lemma concat_map_filter_cond:
  "\<forall>x \<in> set xs. F x = (if P x then G x else []) \<Longrightarrow>
   concat (map F xs) = concat (map G (filter P xs))"
  by (induction xs) auto

lemma join_rows_of_edge_sealed:
  assumes "reachable s"
    and "ps_sealed_product_id e = sid \<longrightarrow> distinct (map ph_recorded_at
           (filter (\<lambda>h. ph_product_id h = ps_single_product_id e) (price_history_rows s)))"
  shows "concat (map (\<lambda>h.
              if ps_single_product_id e = ph_product_id h then
                if ps_sealed_product_id e = sid then
                  if Some (ph_recorded_at h)
                       = max_recorded_at (price_history_rows s) (ps_single_product_id e)
                  then [(ps_quantity e, ph_price h)] else []
                else []
              else []) (price_history_rows s))
         = (if ps_sealed_product_id e = sid
            then (case get_latest_price_with_db s (ps_single_product_id e) of
                    Inr (Some price) \<Rightarrow> [(ps_quantity e, price)]
                  | _ \<Rightarrow> [])
            else [])"
proof (cases "ps_sealed_product_id e = sid")
  case True
  with assms(2) have d: "distinct (map ph_recorded_at
           (filter (\<lambda>h. ph_product_id h = ps_single_product_id e) (price_history_rows s)))"
    by simp
  show ?thesis
    using join_rows_of_edge [OF assms(1) d] True by (simp cong: if_cong)
next
  case False
  then show ?thesis by (simp cong: if_cong)
qed

text \<open>When no two observations of a component single share a recorded_at, the
  valuation of the code is the valuation of the specification: unresolvable singles
  are left out, every resolvable one is counted once, and there is no value exactly
  when none resolves.\<close>

lemma singles_value_without_ties:
  assumes "reachable s"
    and "\<forall>e \<in> set (product_single_rows s). ps_sealed_product_id e = sid \<longrightarrow>
           distinct (map ph_recorded_at
             (filter (\<lambda>h. ph_product_id h = ps_single_product_id e) (price_history_rows s)))"
  shows "calculate_singles_value_with_db s sid = Inr (spec_singles_value s sid)"
proof -
  have q: "singles_query s sid = Inr (spec_resolved_singles s sid)"
    unfolding singles_query_edges [OF assms(1)] spec_resolved_singles_def
    using assms by (intro arg_cong [where f = Inr] concat_map_filter_cond ballI
        join_rows_of_edge_sealed) auto
  show ?thesis
    by (simp add: calculate_singles_value_with_db_def q spec_singles_value_def Let_def
        fold_total_value)
qed

subsection \<open>Singles valuation under a timestamp tie\<close>


subsection \<open>The seller count of an opportunity\<close>


subsection \<open>Executing and cancelling an opportunity\<close>

text \<open>
  Claim C3. For every opportunity and every call execute(quantity, notes): when the
  current status is not active the call fails with InvalidState; when (the status
  being active) the quantity is outside [1,100] it fails with InvalidArgument;
  otherwise it succeeds and sets the status to executed, execution_quantity to the
  quantity, execution_notes to the notes, and executed_at. A successful call is a
  transition from active to executed and no other. A request that the schema
  \<^verbatim>\<open>OpportunityExecution\<close> admits never fails with InvalidArgument.
\<close>

theorem execute_active_to_executed:
  "(status opp \<noteq> ''active'' \<longrightarrow> execute opp now quantity notes = Inl InvalidState)
   \<and> (status opp = ''active'' \<and> (quantity < 1 \<or> 100 < quantity) \<longrightarrow>
         execute opp now quantity notes = Inl InvalidArgument)
   \<and> (status opp = ''active'' \<and> 1 \<le> quantity \<and> quantity \<le> 100 \<longrightarrow>
         (\<exists>opp'. execute opp now quantity notes = Inr opp'
            \<and> status opp' = ''executed''
            \<and> execution_quantity opp' = Some quantity
            \<and> execution_notes opp' = notes
            \<and> executed_at opp' = Some now
            \<and> updated_at opp' = Some now))
   \<and> (\<forall>opp'. execute opp now quantity notes = Inr opp' \<longrightarrow>
         status opp = ''active'' \<and> status opp' = ''executed''
         \<and> 1 \<le> quantity \<and> quantity \<le> 100)
   \<and> (OpportunityExecution_valid quantity notes \<longrightarrow>
         execute opp now quantity notes \<noteq> Inl InvalidArgument)"
  by (auto simp add: execute_def OpportunityExecution_valid_def)

theorem execute_active_to_executed_witness:
  "execute found_opportunity 7 50 (Some ''bought'') =
     Inr (found_opportunity\<lparr>status := ''executed'', execution_quantity := Some 50,
            execution_notes := Some ''bought'', executed_at := Some 7, updated_at := Some 7\<rparr>)
   \<and> execute found_opportunity 7 0 None = Inl InvalidArgument
   \<and> execute found_opportunity 7 101 None = Inl InvalidArgument
   \<and> execute (found_opportunity\<lparr>status := ''expired''\<rparr>) 7 50 None = Inl InvalidState"
proof -
  have a: "status found_opportunity = ''active''" by (simp add: found_opportunity_def)
  note t1 = execute_active_to_executed [of found_opportunity 7 50 "Some ''bought''"]
  note t2 = execute_active_to_executed [of found_opportunity 7 0 None]
  note t3 = execute_active_to_executed [of found_opportunity 7 101 None]
  note t4 = execute_active_to_executed [of "found_opportunity\<lparr>status := ''expired''\<rparr>" 7 50 None]
  have 1: "execute found_opportunity 7 50 (Some ''bought'') =
     Inr (found_opportunity\<lparr>status := ''executed'', execution_quantity := Some 50,
            execution_notes := Some ''bought'', executed_at := Some 7, updated_at := Some 7\<rparr>)"
    using t1 a by (simp add: execute_def)
  have 2: "execute found_opportunity 7 0 None = Inl InvalidArgument"
    using t2 a by simp
  have 3: "execute found_opportunity 7 101 None = Inl InvalidArgument"
    using t3 a by simp
  have 4: "execute (found_opportunity\<lparr>status := ''expired''\<rparr>) 7 50 None = Inl InvalidState"
    using t4 by simp
  show ?thesis using 1 2 3 4 by simp
qed

lemma cancel_status: "status (cancel opp now) = ''cancelled''"
  by (simp add: cancel_def)

lemma cancel_cancel: "cancel (cancel opp now) now' = cancel opp now"
  by (simp add: cancel_def)

text \<open>
  Claim C8. For every opportunity in every state, cancel (the delete operation)
  takes the record to the status cancelled; it is idempotent: a second cancel
  succeeds and leaves the record and the store as the first one left them; and it
  never removes a record: the identifiers of the store are the same after the call
  and every other record is untouched.
\<close>

theorem cancel_idempotent_never_removes:
  "status (cancel opp now) = ''cancelled''
   \<and> cancel (cancel opp now) now' = cancel opp now
   \<and> dom (snd (delete_opportunity store now oid)) = dom store
   \<and> (\<forall>k. k \<noteq> oid \<longrightarrow> snd (delete_opportunity store now oid) k = store k)
   \<and> (store oid = Some opp \<longrightarrow>
         delete_opportunity store now oid = (True, store(oid \<mapsto> cancel opp now))
         \<and> delete_opportunity (snd (delete_opportunity store now oid)) now' oid
             = (True, snd (delete_opportunity store now oid))
         \<and> delete_opportunity_endpoint store now oid = (Inr (), store(oid \<mapsto> cancel opp now))
         \<and> delete_opportunity_endpoint (snd (delete_opportunity store now oid)) now' oid
             = (Inr (), snd (delete_opportunity store now oid)))"
proof -
  have d: "dom (snd (delete_opportunity store now oid)) = dom store"
    by (auto simp add: delete_opportunity_def split: option.splits)
  have o: "\<forall>k. k \<noteq> oid \<longrightarrow> snd (delete_opportunity store now oid) k = store k"
    by (simp add: delete_opportunity_def split: option.splits)
  have s: "store oid = Some opp \<longrightarrow>
         delete_opportunity store now oid = (True, store(oid \<mapsto> cancel opp now))
         \<and> delete_opportunity (snd (delete_opportunity store now oid)) now' oid
             = (True, snd (delete_opportunity store now oid))
         \<and> delete_opportunity_endpoint store now oid = (Inr (), store(oid \<mapsto> cancel opp now))
         \<and> delete_opportunity_endpoint (snd (delete_opportunity store now oid)) now' oid
             = (Inr (), snd (delete_opportunity store now oid))"
    by (simp add: delete_opportunity_def delete_opportunity_endpoint_def cancel_cancel)
  show ?thesis using d o s cancel_status [of opp now] cancel_cancel [of opp now now'] by blast
qed

theorem cancel_idempotent_never_removes_witness:
  "fst (delete_opportunity opportunity_table 5 ''opp-1'') = True
   \<and> map_option status (snd (delete_opportunity opportunity_table 5 ''opp-1'') ''opp-1'')
       = Some ''cancelled''
   \<and> delete_opportunity (snd (delete_opportunity opportunity_table 5 ''opp-1'')) 9 ''opp-1''
       = (True, snd (delete_opportunity opportunity_table 5 ''opp-1''))"
proof -
  have h: "opportunity_table ''opp-1'' = Some found_opportunity"
    by (simp add: opportunity_table_def)
  note t = cancel_idempotent_never_removes
             [of found_opportunity 5 9 opportunity_table "''opp-1''"]
  have 1: "delete_opportunity opportunity_table 5 ''opp-1''
             = (True, opportunity_table(''opp-1'' \<mapsto> cancel found_opportunity 5))"
    using t h by blast
  have 2: "delete_opportunity (snd (delete_opportunity opportunity_table 5 ''opp-1'')) 9 ''opp-1''
             = (True, snd (delete_opportunity opportunity_table 5 ''opp-1''))"
    using t h by blast
  have 3: "status (cancel found_opportunity 5) = ''cancelled''"
    using t by blast
  show ?thesis using 2 3 by (simp add: 1)
qed

end
